theory Spec2Isabelle
  imports Complex_Main
begin

section \<open>JavaScript values used by the program\<close>

text \<open>
  A JavaScript string is modelled as a \<^typ>\<open>string\<close>; a character stands for one code unit
  in the range 0..255. The white space of \<open>String.prototype.trim\<close> and of the regular
  expression class \<open>\s\<close> that lies in this range is TAB, LF, VT, FF, CR, SPACE and the
  no-break space U+00A0.
\<close>

definition isWhiteSpace :: "char \<Rightarrow> bool" where
  "isWhiteSpace c = (c \<in> set [CHR 0x09, CHR 0x0A, CHR 0x0B, CHR 0x0C, CHR 0x0D, CHR 0x20, CHR 0xA0])"

text \<open>\<open>s.trim()\<close>: the white space at both ends of the string is removed.\<close>

definition trim :: "string \<Rightarrow> string" where
  "trim s = rev (dropWhile isWhiteSpace (rev (dropWhile isWhiteSpace s)))"

text \<open>\<open>s.includes(sub)\<close>: \<open>sub\<close> occurs in \<open>s\<close> as a contiguous run of characters.\<close>

fun startsWith :: "string \<Rightarrow> string \<Rightarrow> bool" where
  "startsWith s [] = True"
| "startsWith [] (c # sub) = False"
| "startsWith (d # s) (c # sub) = (d = c \<and> startsWith s sub)"

fun includes_str :: "string \<Rightarrow> string \<Rightarrow> bool" where
  "includes_str [] sub = (sub = [])"
| "includes_str (c # s) sub = (startsWith (c # s) sub \<or> includes_str s sub)"

text \<open>The exceptions that the modelled code can meet.\<close>

datatype js_error = SyntaxError | TypeError | Error string

text \<open>
  A value that \<open>JSON.parse\<close> can give. The values of a JavaScript expression are these and
  \<open>undefined\<close>, which is \<open>None\<close> where a value is optional.
\<close>

datatype jsvalue = JNull | JBool bool | JNumber real | JString string
  | JArray "jsvalue list" | JObject "(string \<times> jsvalue) list"

text \<open>
  The text kept under a \<open>localStorage\<close> key is represented by what \<open>JSON.parse\<close> makes of
  it: \<open>Encoded v\<close> is a text that parses to the value \<open>v\<close>, as \<open>JSON.stringify(v)\<close> is, and
  \<open>Malformed s\<close> is a text \<open>s\<close> that \<open>JSON.parse\<close> rejects with a \<open>SyntaxError\<close> (the
  empty text among them).
\<close>

datatype jsontext = Malformed string | Encoded jsvalue

definition JSON_stringify :: "jsvalue \<Rightarrow> jsontext" where
  "JSON_stringify v = Encoded v"

fun JSON_parse :: "jsontext \<Rightarrow> js_error + jsvalue" where
  "JSON_parse (Malformed s) = Inl SyntaxError"
| "JSON_parse (Encoded v) = Inr v"

text \<open>A string is falsy exactly when it is empty; \<open>null\<close> (a missing key) is falsy too.\<close>

fun truthy :: "jsontext \<Rightarrow> bool" where
  "truthy (Malformed s) = (s \<noteq> [])"
| "truthy (Encoded v) = True"

text \<open>
  Reading one of the properties \<open>title\<close>, \<open>email\<close> and \<open>name\<close> (the ones that the program
  reads from parsed values): \<open>null\<close> throws a \<open>TypeError\<close>, an object gives the value of the
  key or \<open>undefined\<close>, and arrays, strings, numbers and booleans have no such property.
\<close>

fun getProp :: "jsvalue \<Rightarrow> string \<Rightarrow> js_error + jsvalue option" where
  "getProp JNull key = Inl TypeError"
| "getProp (JObject props) key = Inr (map_of props key)"
| "getProp v key = Inr None"

text \<open>\<open>array.filter(callback)\<close> with a callback that may throw: the first exception ends it.\<close>

fun filter_js :: "(jsvalue \<Rightarrow> js_error + bool) \<Rightarrow> jsvalue list \<Rightarrow> js_error + jsvalue list" where
  "filter_js callback [] = Inr []"
| "filter_js callback (x # xs) =
     (case callback x of
        Inl e \<Rightarrow> Inl e
      | Inr keep \<Rightarrow>
          (case filter_js callback xs of
             Inl e \<Rightarrow> Inl e
           | Inr ys \<Rightarrow> Inr (if keep then x # ys else ys)))"


section \<open>The storage module (\<open>utils/storage\<close>)\<close>

text \<open>
  The two interfaces. \<open>userName\<close> holds whatever \<open>user?.name\<close> gives at run time: nothing,
  or any parsed value. \<open>JSON.stringify\<close> writes the fields in their order and leaves out a
  field that is \<open>undefined\<close>.
\<close>

record StoredMeeting =
  id_sm :: string
  title_sm :: string
  email_sm :: string
  savedAt_sm :: nat
  userName_sm :: "jsvalue option"

record UserData =
  name :: string
  savedAt :: nat

definition StoredMeeting_value :: "StoredMeeting \<Rightarrow> jsvalue" where
  "StoredMeeting_value m =
     JObject ([(''id'', JString (id_sm m)), (''title'', JString (title_sm m)),
               (''email'', JString (email_sm m)), (''savedAt'', JNumber (real (savedAt_sm m)))]
              @ (case userName_sm m of None \<Rightarrow> [] | Some v \<Rightarrow> [(''userName'', v)]))"

definition UserData_value :: "UserData \<Rightarrow> jsvalue" where
  "UserData_value u = JObject [(''name'', JString (name u)), (''savedAt'', JNumber (real (savedAt u)))]"

text \<open>
  The page as the program sees and changes it: the texts under the two \<open>localStorage\<close> keys
  that the program uses (\<open>None\<close> is a missing key), and what the program has done so far, in
  order: its \<open>console\<close> calls (with their first argument), its storage writes (with the key)
  and the requests it posted (with address and body, the body as the value that is sent). The
  storage is taken to have room: \<open>setItem\<close> does not throw.
\<close>

datatype action = ConsoleError string | ConsoleLog | SetItem string | RemoveItem string
  | Post string jsvalue

record browser =
  meetgenai_user :: "jsontext option"
  meetgenai_meetings :: "jsontext option"
  actions :: "action list"

text \<open>
  What a call reads from the platform: the text of \<open>Math.random().toString(36)\<close> and the
  two readings of \<open>Date.now()\<close> that \<open>saveMeeting\<close> takes, the first one inside \<open>generateId\<close>.
\<close>

record platform =
  random36 :: string
  idClock :: nat
  clock :: nat

definition digit36 :: "nat \<Rightarrow> char" where
  "digit36 d = ''0123456789abcdefghijklmnopqrstuvwxyz'' ! d"

function toString36 :: "nat \<Rightarrow> string" where
  "toString36 n = (if n < 36 then [digit36 n] else toString36 (n div 36) @ [digit36 (n mod 36)])"
  by pat_completeness auto
termination
  by (relation "measure (\<lambda>n. n)") auto

declare toString36.simps [simp del]

text \<open>\<open>Math.random().toString(36).substr(2, 9) + Date.now().toString(36)\<close>\<close>

definition generateId :: "platform \<Rightarrow> string" where
  "generateId p = take 9 (drop 2 (random36 p)) @ toString36 (idClock p)"

definition saveUser :: "nat \<Rightarrow> string \<Rightarrow> browser \<Rightarrow> browser" where
  "saveUser now nm b =
     (let userData = \<lparr> name = trim nm, savedAt = now \<rparr>
      in b \<lparr> meetgenai_user := Some (JSON_stringify (UserData_value userData)),
              actions := actions b @ [SetItem ''meetgenai_user''] \<rparr>)"

text \<open>
  \<open>getUser\<close> and \<open>getMeetings\<close>: the body of the \<open>try\<close> block is evaluated to a result that
  may be an exception; the \<open>catch\<close> clause logs the exception and returns the default. What
  the text parses to is returned as it is.
\<close>

definition getUser :: "browser \<Rightarrow> (js_error + jsvalue) \<times> browser" where
  "getUser b =
     (case (case meetgenai_user b of
              None \<Rightarrow> Inr JNull
            | Some stored \<Rightarrow> if truthy stored then JSON_parse stored else Inr JNull)
      of Inl error \<Rightarrow>
           (Inr JNull, b \<lparr> actions := actions b @ [ConsoleError ''Error loading user from storage:''] \<rparr>)
       | Inr user \<Rightarrow> (Inr user, b))"

definition clearUser :: "browser \<Rightarrow> browser" where
  "clearUser b = b \<lparr> meetgenai_user := None, actions := actions b @ [RemoveItem ''meetgenai_user''] \<rparr>"

definition getMeetings :: "browser \<Rightarrow> (js_error + jsvalue) \<times> browser" where
  "getMeetings b =
     (case (case meetgenai_meetings b of
              None \<Rightarrow> Inr (JArray [])
            | Some stored \<Rightarrow> if truthy stored then JSON_parse stored else Inr (JArray []))
      of Inl error \<Rightarrow>
           (Inr (JArray []),
            b \<lparr> actions := actions b @ [ConsoleError ''Error loading meetings from storage:''] \<rparr>)
       | Inr meetings \<Rightarrow> (Inr meetings, b))"

text \<open>
  The callback of the filter in \<open>saveMeeting\<close>:
  \<open>!(meeting.title === newMeeting.title && meeting.email === newMeeting.email)\<close>. The
  properties of the new record are strings, so \<open>===\<close> holds exactly when the property of
  the stored value is the same string.
\<close>

definition notDuplicate :: "StoredMeeting \<Rightarrow> jsvalue \<Rightarrow> js_error + bool" where
  "notDuplicate newMeeting meeting =
     (case getProp meeting ''title'' of
        Inl e \<Rightarrow> Inl e
      | Inr t \<Rightarrow>
          if t = Some (JString (title_sm newMeeting)) then
            (case getProp meeting ''email'' of
               Inl e \<Rightarrow> Inl e
             | Inr m \<Rightarrow> Inr (\<not> (m = Some (JString (email_sm newMeeting)))))
          else Inr True)"

text \<open>
  \<open>saveMeeting\<close>: the new record is built from the trimmed title and email and from
  \<open>user?.name\<close>; \<open>meetings.filter\<close> throws a \<open>TypeError\<close> when \<open>meetings\<close> is not an array,
  and otherwise removes the records with the same title and email; the new record is put in
  front (\<open>unshift\<close>) and the first ten records (\<open>slice(0, 10)\<close>) are written back.
\<close>

definition saveMeeting :: "platform \<Rightarrow> string \<Rightarrow> string \<Rightarrow> browser \<Rightarrow> (js_error + unit) \<times> browser" where
  "saveMeeting p title email b =
     (case getMeetings b of
        (Inl e, b) \<Rightarrow> (Inl e, b)
      | (Inr meetings, b) \<Rightarrow>
         (case getUser b of
            (Inl e, b) \<Rightarrow> (Inl e, b)
          | (Inr user, b) \<Rightarrow>
             (case (case user of JNull \<Rightarrow> Inr None | _ \<Rightarrow> getProp user ''name'') of
                Inl e \<Rightarrow> (Inl e, b)
              | Inr userName \<Rightarrow>
                 (let newMeeting = \<lparr> id_sm = generateId p, title_sm = trim title,
                                     email_sm = trim email, savedAt_sm = clock p,
                                     userName_sm = userName \<rparr>
                  in case (case meetings of
                             JArray records \<Rightarrow> filter_js (notDuplicate newMeeting) records
                           | _ \<Rightarrow> Inl TypeError)
                     of Inl e \<Rightarrow> (Inl e, b)
                      | Inr filteredMeetings \<Rightarrow>
                         (let filteredMeetings = StoredMeeting_value newMeeting # filteredMeetings;
                              recentMeetings = take 10 filteredMeetings
                          in (Inr (),
                              b \<lparr> meetgenai_meetings := Some (JSON_stringify (JArray recentMeetings)),
                                  actions := actions b @ [SetItem ''meetgenai_meetings''] \<rparr>))))))"

definition hasUser :: "browser \<Rightarrow> (js_error + bool) \<times> browser" where
  "hasUser b = (case getUser b of (r, b) \<Rightarrow> (map_sum (\<lambda>e. e) (\<lambda>user. user \<noteq> JNull) r, b))"



section \<open>Remote requests (\<open>fetch\<close> and \<open>utils/api\<close>)\<close>

text \<open>
  The outcome of \<open>await fetch(...)\<close> is an exception when the request cannot be made (the
  promise rejects with a \<open>TypeError\<close>), or a response with its \<open>ok\<close> flag and with what
  \<open>await response.json()\<close> gives: an exception when the body is not JSON, or the data.
\<close>

datatype 'b response = Response (ok: bool) (json: "js_error + 'b")

type_synonym 'b fetched = "js_error + 'b response"

record status_data =
  status :: string

definition getStatus :: "status_data fetched \<Rightarrow> js_error + string" where
  "getStatus fetched =
     (case fetched of
        Inl e \<Rightarrow> Inl e
      | Inr response \<Rightarrow>
          if \<not> ok response then Inl (Error ''Failed to get status'')
          else (case json response of
                  Inl e \<Rightarrow> Inl e
                | Inr data \<Rightarrow> Inr (status data)))"


section \<open>The process modal (\<open>MeetingProcessModal\<close>)\<close>

datatype ProcessStep = joining | joined | ended | generating | completed

text \<open>
  The state of the component and of what it has set in motion: the two state variables, the
  timer made by \<open>setInterval\<close> (\<open>None\<close> when there is none or it was cleared, otherwise its
  period in milliseconds), the number of \<open>getStatus\<close> requests that have not settled yet, and
  a log of what the component did: the requests it issued, the values it passed to
  \<open>setCurrentStep\<close>, the summaries it passed to \<open>onComplete\<close>, the calls of \<open>console.error\<close>.
\<close>

record modal =
  currentStep :: ProcessStep
  progress :: nat
  interval :: "nat option"
  pending :: nat
  requests :: nat
  stepCalls :: "ProcessStep list"
  completeCalls :: "string list"
  consoleErrors :: nat

definition initialModal :: modal where
  "initialModal = \<lparr> currentStep = joining, progress = 0, interval = None, pending = 0,
                     requests = 0, stepCalls = [], completeCalls = [], consoleErrors = 0 \<rparr>"

definition clearInterval :: "modal \<Rightarrow> modal" where
  "clearInterval m = m \<lparr> interval := None \<rparr>"

definition onComplete :: "string \<Rightarrow> modal \<Rightarrow> modal" where
  "onComplete summary m = m \<lparr> completeCalls := completeCalls m @ [summary] \<rparr>"

text \<open>The effect: nothing when the modal is not open, otherwise \<open>setInterval(..., 10000)\<close>.\<close>

definition effect :: "bool \<Rightarrow> modal \<Rightarrow> modal" where
  "effect isOpen m = (if \<not> isOpen then m else m \<lparr> interval := Some 10000 \<rparr>)"

text \<open>The function that the effect returns, run when the modal is closed.\<close>

definition cleanup :: "modal \<Rightarrow> modal" where
  "cleanup m = clearInterval m"

text \<open>
  The timer callback up to its \<open>await\<close>: a timer that was cleared does not fire; one that
  fires calls \<open>getStatus\<close>, whether or not an earlier request is still under way.
\<close>

definition timerFires :: "modal \<Rightarrow> modal" where
  "timerFires m =
     (case interval m of
        None \<Rightarrow> m
      | Some period \<Rightarrow> m \<lparr> pending := pending m + 1, requests := requests m + 1 \<rparr>)"

text \<open>The \<open>switch\<close> on the status: the next step, the progress value and the calls made.\<close>

definition statusSwitch :: "string \<Rightarrow> modal \<Rightarrow> ProcessStep \<times> nat \<times> modal" where
  "statusSwitch st m =
     (if st = ''not started'' then (joined, 25, m)
      else if st = ''Transcription'' \<or> st = ''Preprocessing'' then (ended, 50, m)
      else if st = ''summary generation'' then (generating, 75, m)
      else if st = ''completed'' then (completed, 100, onComplete ''Summary completed!'' (clearInterval m))
      else (joining, 10, m))"

text \<open>
  The timer callback from its \<open>await\<close> on, run when a request settles: the \<open>catch\<close> clause
  logs the failure, and a status goes through the \<open>switch\<close> and into the two state variables.
\<close>

definition pollSettles :: "status_data fetched \<Rightarrow> modal \<Rightarrow> modal" where
  "pollSettles fetched m =
     (if pending m = 0 then m
      else
        (let m = m \<lparr> pending := pending m - 1 \<rparr>
         in case getStatus fetched of
              Inl error \<Rightarrow> m \<lparr> consoleErrors := consoleErrors m + 1 \<rparr>
            | Inr st \<Rightarrow>
                (case statusSwitch st m of
                   (nextStep, progressValue, m) \<Rightarrow>
                     m \<lparr> currentStep := nextStep, progress := progressValue,
                         stepCalls := stepCalls m @ [nextStep] \<rparr>)))"

datatype event = TimerFires | PollSettles "status_data fetched" | ModalCloses

fun step :: "modal \<Rightarrow> event \<Rightarrow> modal" where
  "step m TimerFires = timerFires m"
| "step m (PollSettles fetched) = pollSettles fetched m"
| "step m ModalCloses = cleanup m"

definition run :: "event list \<Rightarrow> modal \<Rightarrow> modal" where
  "run events m = foldl step m events"

text \<open>A request that succeeds with the given status.\<close>

definition statusReply :: "string \<Rightarrow> status_data fetched" where
  "statusReply st = Inr (Response True (Inr \<lparr> status = st \<rparr>))"

text \<open>One tick after the other, each request settled before the next tick.\<close>

definition pollSequence :: "status_data fetched list \<Rightarrow> event list" where
  "pollSequence replies = concat (map (\<lambda>reply. [TimerFires, PollSettles reply]) replies)"


section \<open>The forms (\<open>NewMeetingForm\<close>, \<open>ExistingMeetingForm\<close>)\<close>

record MeetingData =
  title :: string
  link :: string
  email :: string
  password :: string

text \<open>\<open>JSON.stringify(meetingData)\<close>, the body of a join request.\<close>

definition MeetingData_value :: "MeetingData \<Rightarrow> jsvalue" where
  "MeetingData_value d =
     JObject [(''title'', JString (title d)), (''link'', JString (link d)),
              (''email'', JString (email d)), (''password'', JString (password d))]"

text \<open>\<open>Partial<MeetingData>\<close>: the message of each field that failed.\<close>

record form_errors =
  title_error :: "string option"
  link_error :: "string option"
  email_error :: "string option"
  password_error :: "string option"

text \<open>
  The platform's \<open>URL\<close> constructor is a parameter of the model: it throws a \<open>TypeError\<close>
  or gives the parsed URL, of which the host name is kept.
\<close>

datatype URL = URL (hostname: string)

type_synonym url_constructor = "string \<Rightarrow> js_error + URL"

definition isValidUrl :: "url_constructor \<Rightarrow> string \<Rightarrow> bool" where
  "isValidUrl newURL url =
     (case newURL url of
        Inl e \<Rightarrow> False
      | Inr u \<Rightarrow> includes_str url ''meet.google.com'' \<or> includes_str url ''zoom.us''
                 \<or> includes_str url ''teams.microsoft.com'')"

text \<open>
  The regular expression \<open>/^[^\s@]+@[^\s@]+\.[^\s@]+$/\<close>. A character of the class
  \<open>[^\s@]\<close> is neither white space nor \<open>@\<close>, so the text before the first \<open>@\<close> is the
  first group; the rest must have a dot with a character on each side.
\<close>

definition emailChar :: "char \<Rightarrow> bool" where
  "emailChar c = (\<not> isWhiteSpace c \<and> c \<noteq> CHR ''@'')"

definition isValidEmail :: "string \<Rightarrow> bool" where
  "isValidEmail s =
     (let local = takeWhile (\<lambda>c. c \<noteq> CHR ''@'') s;
          rest = dropWhile (\<lambda>c. c \<noteq> CHR ''@'') s
      in local \<noteq> [] \<and> list_all emailChar local \<and> rest \<noteq> []
         \<and> list_all emailChar (tl rest) \<and> CHR ''.'' \<in> set (butlast (tl (tl rest))))"

definition validateForm :: "url_constructor \<Rightarrow> MeetingData \<Rightarrow> form_errors \<times> bool" where
  "validateForm newURL formData =
     (let newErrors = \<lparr> title_error = None, link_error = None, email_error = None,
                         password_error = None \<rparr>;
          newErrors = (if trim (title formData) = []
                       then newErrors \<lparr> title_error := Some ''Meeting title is required'' \<rparr>
                       else newErrors);
          newErrors = (if trim (link formData) = []
                       then newErrors \<lparr> link_error := Some ''Meeting link is required'' \<rparr>
                       else if \<not> isValidUrl newURL (link formData)
                       then newErrors \<lparr> link_error := Some ''Please enter a valid meeting URL'' \<rparr>
                       else newErrors);
          newErrors = (if trim (email formData) = []
                       then newErrors \<lparr> email_error := Some ''Email address is required'' \<rparr>
                       else if \<not> isValidEmail (email formData)
                       then newErrors \<lparr> email_error := Some ''Please enter a valid email address'' \<rparr>
                       else newErrors);
          newErrors = (if trim (password formData) = []
                       then newErrors \<lparr> password_error := Some ''Password is required'' \<rparr>
                       else newErrors)
      in (newErrors,
          title_error newErrors = None \<and> link_error newErrors = None
          \<and> email_error newErrors = None \<and> password_error newErrors = None))"

text \<open>
  What \<open>NewMeetingForm.handleSubmit\<close> does: the errors it sets, the requests it posts (address
  and body), the alerts it shows and the calls of \<open>onJoinMeeting\<close>.
\<close>

record submission =
  errors :: form_errors
  posts :: "(string \<times> MeetingData) list"
  alerts :: "string list"
  joinCalls :: "MeetingData list"

record join_reply =
  message :: "string option"

definition handleSubmit :: "url_constructor \<Rightarrow> MeetingData \<Rightarrow> join_reply fetched \<Rightarrow> submission" where
  "handleSubmit newURL formData fetched =
     (case validateForm newURL formData of
        (newErrors, valid) \<Rightarrow>
          if \<not> valid then \<lparr> errors = newErrors, posts = [], alerts = [], joinCalls = [] \<rparr>
          else
            (let sent = \<lparr> errors = newErrors,
                          posts = [(''http://localhost:5000/api/join_meeting'', formData)],
                          alerts = [], joinCalls = [] \<rparr>;
                 caught = sent \<lparr> alerts := [''Network error, please try again.''] \<rparr>
             in case fetched of
                  Inl e \<Rightarrow> caught
                | Inr response \<Rightarrow>
                    if \<not> ok response then
                      (case json response of
                         Inl e \<Rightarrow> caught
                       | Inr err \<Rightarrow>
                           sent \<lparr> alerts := [''Failed to join: '' @
                                     (case message err of None \<Rightarrow> ''undefined'' | Some msg \<Rightarrow> msg)] \<rparr>)
                    else
                      (case json response of
                         Inl e \<Rightarrow> caught
                       | Inr result \<Rightarrow> sent \<lparr> joinCalls := [formData] \<rparr>)))"

text \<open>
  The effect of \<open>ExistingMeetingForm\<close> that loads the history:
  \<open>JSON.parse(localStorage.getItem('meetgenai_meetings') || '[]')\<close>, with no \<open>try\<close> around it.
\<close>

definition loadSavedMeetings :: "browser \<Rightarrow> js_error + jsvalue" where
  "loadSavedMeetings b =
     JSON_parse (case meetgenai_meetings b of
                   None \<Rightarrow> JSON_stringify (JArray [])
                 | Some stored \<Rightarrow> if truthy stored then stored else JSON_stringify (JArray []))"

text \<open>
  A stand-in for the platform's \<open>URL\<close> constructor on the addresses used in the examples
  below: \<open>http://\<close> or \<open>https://\<close>, a host of lower-case letters, digits, dots and hyphens,
  and then nothing or a path; it rejects everything else.
\<close>

definition hostChar :: "char \<Rightarrow> bool" where
  "hostChar c = (c \<in> set ''abcdefghijklmnopqrstuvwxyz0123456789.-'')"

definition simpleURL :: url_constructor where
  "simpleURL s =
     (let rest = (if startsWith s ''https://'' then drop 8 s
                  else if startsWith s ''http://'' then drop 7 s else []);
          host = takeWhile (\<lambda>c. c \<noteq> CHR ''/'') rest;
          path = dropWhile (\<lambda>c. c \<noteq> CHR ''/'') rest
      in if host \<noteq> [] \<and> list_all hostChar host \<and> list_all (\<lambda>c. hostChar c \<or> c = CHR ''/'') path
         then Inr (URL host) else Inl TypeError)"


section \<open>The application (\<open>App.handleJoinMeeting\<close>)\<close>

record app =
  page :: browser
  currentMeetingTitle :: string
  showProcessModal :: bool

text \<open>
  \<open>handleJoinMeeting\<close> up to its \<open>await\<close>: the meeting is saved, the title and the modal flag
  are set, and the request is posted. An exception of \<open>saveMeeting\<close> leaves the function
  before the rest.
\<close>

definition handleJoinMeeting_begin :: "platform \<Rightarrow> MeetingData \<Rightarrow> app \<Rightarrow> (js_error + unit) \<times> app" where
  "handleJoinMeeting_begin p meetingData a =
     (case saveMeeting p (title meetingData) (email meetingData) (page a) of
        (Inl e, b) \<Rightarrow> (Inl e, a \<lparr> page := b \<rparr>)
      | (Inr u, b) \<Rightarrow>
          (Inr (),
           a \<lparr> currentMeetingTitle := title meetingData,
               showProcessModal := True,
               page := b \<lparr> actions := actions b @ [Post ''/api/join_meeting'' (MeetingData_value meetingData)] \<rparr> \<rparr>))"

text \<open>
  \<open>handleJoinMeeting\<close> from its \<open>await\<close> on: a response that is not \<open>ok\<close> throws, and the
  \<open>catch\<close> clause logs every exception; the result of a success is logged.
\<close>

definition handleJoinMeeting_settle :: "'b fetched \<Rightarrow> app \<Rightarrow> app" where
  "handleJoinMeeting_settle fetched a =
     (case (case fetched of
              Inl e \<Rightarrow> Inl e
            | Inr response \<Rightarrow>
                if \<not> ok response then Inl (Error ''Failed to join meeting'')
                else json response)
      of Inl error \<Rightarrow>
           a \<lparr> page := (page a) \<lparr> actions := actions (page a) @ [ConsoleError ''Error joining meeting:''] \<rparr> \<rparr>
       | Inr result \<Rightarrow>
           a \<lparr> page := (page a) \<lparr> actions := actions (page a) @ [ConsoleLog] \<rparr> \<rparr>)"

definition handleJoinMeeting :: "platform \<Rightarrow> MeetingData \<Rightarrow> 'b fetched \<Rightarrow> app \<Rightarrow> (js_error + unit) \<times> app" where
  "handleJoinMeeting p meetingData fetched a =
     (case handleJoinMeeting_begin p meetingData a of
        (Inl e, a) \<Rightarrow> (Inl e, a)
      | (Inr u, a) \<Rightarrow> (Inr (), handleJoinMeeting_settle fetched a))"


section \<open>Vocabulary of the statements and example data\<close>

text \<open>
  The records of the stored history when its text is a list. The history texts with which
  \<open>saveMeeting\<close> does not throw: no text, a text that is not JSON, and a list with no
  \<open>null\<close> among its elements. The \<open>console.error\<close> calls that \<open>getMeetings\<close> and
  \<open>getUser\<close> make on a text that is not JSON. What \<open>user?.name\<close> gives. The record that
  \<open>saveMeeting\<close> builds for a call, as it is stored, and the key of a record and of a call.
\<close>

definition history :: "browser \<Rightarrow> jsvalue list" where
  "history b = (case meetgenai_meetings b of Some (Encoded (JArray records)) \<Rightarrow> records | _ \<Rightarrow> [])"

definition usable :: "browser \<Rightarrow> bool" where
  "usable b =
     (case meetgenai_meetings b of
        None \<Rightarrow> True
      | Some (Malformed s) \<Rightarrow> True
      | Some (Encoded v) \<Rightarrow> (case v of JArray records \<Rightarrow> JNull \<notin> set records | _ \<Rightarrow> False))"

definition meetingsLog :: "browser \<Rightarrow> action list" where
  "meetingsLog b =
     (case meetgenai_meetings b of
        Some (Malformed s) \<Rightarrow>
          if s \<noteq> [] then [ConsoleError ''Error loading meetings from storage:''] else []
      | _ \<Rightarrow> [])"

definition userLog :: "browser \<Rightarrow> action list" where
  "userLog b =
     (case meetgenai_user b of
        Some (Malformed s) \<Rightarrow>
          if s \<noteq> [] then [ConsoleError ''Error loading user from storage:''] else []
      | _ \<Rightarrow> [])"

definition profileName :: "browser \<Rightarrow> jsvalue option" where
  "profileName b =
     (case meetgenai_user b of
        Some (Encoded (JObject props)) \<Rightarrow> map_of props ''name''
      | _ \<Rightarrow> None)"

definition entry :: "jsvalue option \<Rightarrow> platform \<times> string \<times> string \<Rightarrow> jsvalue" where
  "entry userName call = (case call of (p, t, e) \<Rightarrow>
     StoredMeeting_value \<lparr> id_sm = generateId p, title_sm = trim t, email_sm = trim e,
                           savedAt_sm = clock p, userName_sm = userName \<rparr>)"

definition sameKey :: "string \<Rightarrow> string \<Rightarrow> jsvalue \<Rightarrow> bool" where
  "sameKey t e m = (getProp m ''title'' = Inr (Some (JString (trim t)))
                    \<and> getProp m ''email'' = Inr (Some (JString (trim e))))"


text \<open>Whether a value is a list.\<close>

fun isArray :: "jsvalue \<Rightarrow> bool" where
  "isArray (JArray records) = True"
| "isArray v = False"

text \<open>
  Example data: platform readings at a given time, a page with no key, a page whose history
  text is \<open>null\<close>, eleven calls with eleven titles, and eleven calls whose titles differ in
  the white space around them only.
\<close>

definition platformAt :: "nat \<Rightarrow> platform" where
  "platformAt n = \<lparr> random36 = ''0.k3x9q2m7pz4'', idClock = n, clock = n \<rparr>"

definition emptyPage :: browser where
  "emptyPage = \<lparr> meetgenai_user = None, meetgenai_meetings = None, actions = [] \<rparr>"

definition nullHistoryPage :: browser where
  "nullHistoryPage = \<lparr> meetgenai_user = None, meetgenai_meetings = Some (Encoded JNull), actions = [] \<rparr>"



text \<open>
  An application state before the first meeting, one whose history text is \<open>null\<close>, meeting
  data with a given password, and meeting data whose title starts with a space.
\<close>

definition exampleApp :: app where
  "exampleApp = \<lparr> page = emptyPage, currentMeetingTitle = [], showProcessModal = False \<rparr>"

definition nullHistoryApp :: app where
  "nullHistoryApp = \<lparr> page = nullHistoryPage, currentMeetingTitle = [], showProcessModal = False \<rparr>"

definition exampleMeeting :: "string \<Rightarrow> MeetingData" where
  "exampleMeeting pw = \<lparr> title = ''Standup'', link = ''https://meet.google.com/abc-defg-hij'',
                          email = ''a@b.com'', password = pw \<rparr>"

definition paddedMeeting :: MeetingData where
  "paddedMeeting = \<lparr> title = '' A'', link = ''https://meet.google.com/abc-defg-hij'',
                      email = ''a@b.com'', password = ''hunter2'' \<rparr>"

text \<open>
  The stage after each event of a run, and two runs of the process modal: every request of
  the first settles before the next tick; in the second the modal is closed while the
  second request is under way.
\<close>

fun stages :: "event list \<Rightarrow> modal \<Rightarrow> ProcessStep list" where
  "stages [] m = [currentStep m]"
| "stages (e # es) m = currentStep m # stages es (step m e)"

text \<open>
  The replies of a run in the order in which they arrive; whether every reply of a run
  arrives while a request is under way; the step that the \<open>switch\<close> gives for a status.
\<close>

fun replies :: "event list \<Rightarrow> status_data fetched list" where
  "replies [] = []"
| "replies (PollSettles fetched # es) = fetched # replies es"
| "replies (e # es) = replies es"

fun underWay :: "event list \<Rightarrow> modal \<Rightarrow> bool" where
  "underWay [] m = True"
| "underWay (PollSettles fetched # es) m = (0 < pending m \<and> underWay es (step m (PollSettles fetched)))"
| "underWay (e # es) m = underWay es (step m e)"

definition stepOf :: "string \<Rightarrow> ProcessStep" where
  "stepOf st = fst (statusSwitch st initialModal)"

definition happyPath :: "event list" where
  "happyPath = pollSequence (map statusReply
       [''not started'', ''Transcription'', ''summary generation'', ''completed''])"

definition cancelledMidway :: "event list" where
  "cancelledMidway = [TimerFires, PollSettles (statusReply ''not started''), TimerFires, ModalCloses]"

text \<open>
  The modal when it is opened for the second meeting: the application keeps the component
  mounted, so its state is the one that the first meeting left, the modal was closed
  (\<open>cleanup\<close>) when \<open>onComplete\<close> had been called, and opening it runs the effect again.
\<close>

definition reopened :: modal where
  "reopened = effect True (cleanup (run happyPath (effect True initialModal)))"

text \<open>
  Two submissions: a link to another site whose path names a meeting platform, and a link
  that names none.
\<close>

definition lookalikeMeeting :: MeetingData where
  "lookalikeMeeting = \<lparr> title = ''Standup'', link = ''https://evil.example/meet.google.com'',
                         email = ''a@b.com'', password = ''hunter2'' \<rparr>"

definition otherSiteMeeting :: MeetingData where
  "otherSiteMeeting = \<lparr> title = ''Standup'', link = ''https://example.org/room/42'',
                         email = ''a@b.com'', password = ''hunter2'' \<rparr>"


section \<open>The history store\<close>

lemma getMeetings_eq:
  "getMeetings b =
     (Inr (case meetgenai_meetings b of
             None \<Rightarrow> JArray [] | Some (Malformed s) \<Rightarrow> JArray [] | Some (Encoded v) \<Rightarrow> v),
      b \<lparr> actions := actions b @ meetingsLog b \<rparr>)"
  by (simp add: getMeetings_def meetingsLog_def split: option.splits jsontext.splits)

lemma getUser_eq:
  "getUser b =
     (Inr (case meetgenai_user b of
             None \<Rightarrow> JNull | Some (Malformed s) \<Rightarrow> JNull | Some (Encoded v) \<Rightarrow> v),
      b \<lparr> actions := actions b @ userLog b \<rparr>)"
  by (simp add: getUser_def userLog_def split: option.splits jsontext.splits)

lemma getProp_defined: "x \<noteq> JNull \<Longrightarrow> \<exists>v. getProp x key = Inr v"
  by (cases x) simp_all

lemma notDuplicate_eq:
  assumes "x \<noteq> JNull"
  shows "notDuplicate nm x =
           Inr (\<not> (getProp x ''title'' = Inr (Some (JString (title_sm nm)))
                   \<and> getProp x ''email'' = Inr (Some (JString (email_sm nm)))))"
proof -
  from assms obtain t m where "getProp x ''title'' = Inr t" "getProp x ''email'' = Inr m"
    using getProp_defined by blast
  then show ?thesis by (simp add: notDuplicate_def)
qed

lemma notDuplicate_null: "notDuplicate nm JNull = Inl TypeError"
  by (simp add: notDuplicate_def)

lemma filter_js_eq:
  assumes "JNull \<notin> set xs"
  shows "filter_js (notDuplicate nm) xs =
           Inr (filter (\<lambda>x. \<not> (getProp x ''title'' = Inr (Some (JString (title_sm nm)))
                                 \<and> getProp x ''email'' = Inr (Some (JString (email_sm nm))))) xs)"
  using assms by (induction xs) (auto simp: notDuplicate_eq)

lemma filter_js_null:
  assumes "JNull \<in> set xs"
  shows "filter_js (notDuplicate nm) xs = Inl TypeError"
  using assms
proof (induction xs)
  case Nil
  then show ?case by simp
next
  case (Cons x xs)
  show ?case
  proof (cases "x = JNull")
    case True
    then show ?thesis by (simp add: notDuplicate_null)
  next
    case False
    with Cons have "filter_js (notDuplicate nm) xs = Inl TypeError" by simp
    with False show ?thesis by (simp add: notDuplicate_eq)
  qed
qed

lemma loads_eq:
  "getMeetings b =
     (Inr (case meetgenai_meetings b of
             None \<Rightarrow> JArray [] | Some (Malformed s) \<Rightarrow> JArray [] | Some (Encoded v) \<Rightarrow> v),
      b \<lparr> actions := actions b @ meetingsLog b \<rparr>)"
  "getUser (b \<lparr> actions := actions b @ meetingsLog b \<rparr>) =
     (Inr (case meetgenai_user b of
             None \<Rightarrow> JNull | Some (Malformed s) \<Rightarrow> JNull | Some (Encoded v) \<Rightarrow> v),
      b \<lparr> actions := actions b @ meetingsLog b @ userLog b \<rparr>)"
  by (simp_all add: getMeetings_eq getUser_eq userLog_def)

lemma userName_eq:
  "(case (case meetgenai_user b of
            None \<Rightarrow> JNull | Some (Malformed s) \<Rightarrow> JNull | Some (Encoded v) \<Rightarrow> v) of
      JNull \<Rightarrow> Inr None
    | _ \<Rightarrow> getProp (case meetgenai_user b of
            None \<Rightarrow> JNull | Some (Malformed s) \<Rightarrow> JNull | Some (Encoded v) \<Rightarrow> v) ''name'')
     = Inr (profileName b)"
  by (simp add: profileName_def split: option.splits jsontext.splits jsvalue.splits)

lemma saveMeeting_eq:
  assumes "usable b"
  shows "saveMeeting p t e b =
     (Inr (),
      b \<lparr> meetgenai_meetings :=
             Some (Encoded (JArray (take 10 (entry (profileName b) (p, t, e)
                                              # filter (\<lambda>m. \<not> sameKey t e m) (history b))))),
          actions := actions b @ meetingsLog b @ userLog b @ [SetItem ''meetgenai_meetings''] \<rparr>)"
proof -
  let ?nm = "\<lparr> id_sm = generateId p, title_sm = trim t, email_sm = trim e, savedAt_sm = clock p,
              userName_sm = profileName b \<rparr>"
  have f: "(case (case meetgenai_meetings b of
             None \<Rightarrow> JArray [] | Some (Malformed s) \<Rightarrow> JArray [] | Some (Encoded v) \<Rightarrow> v) of
              JArray records \<Rightarrow> filter_js (notDuplicate ?nm) records
            | _ \<Rightarrow> Inl TypeError)
          = Inr (filter (\<lambda>m. \<not> sameKey t e m) (history b))"
    using assms
    by (auto simp: usable_def history_def sameKey_def filter_js_eq
             split: option.splits jsontext.splits jsvalue.splits)
  show ?thesis
    unfolding saveMeeting_def loads_eq prod.case sum.case userName_eq Let_def f
    by (simp add: entry_def JSON_stringify_def)
qed

lemma saveMeeting_throws:
  assumes "\<not> usable b"
  shows "saveMeeting p t e b = (Inl TypeError, b \<lparr> actions := actions b @ meetingsLog b @ userLog b \<rparr>)"
proof -
  let ?nm = "\<lparr> id_sm = generateId p, title_sm = trim t, email_sm = trim e, savedAt_sm = clock p,
              userName_sm = profileName b \<rparr>"
  have f: "(case (case meetgenai_meetings b of
             None \<Rightarrow> JArray [] | Some (Malformed s) \<Rightarrow> JArray [] | Some (Encoded v) \<Rightarrow> v) of
              JArray records \<Rightarrow> filter_js (notDuplicate ?nm) records
            | _ \<Rightarrow> Inl TypeError)
          = Inl TypeError"
    using assms
    by (auto simp: usable_def filter_js_null split: option.splits jsontext.splits jsvalue.splits)
  show ?thesis
    unfolding saveMeeting_def loads_eq prod.case sum.case userName_eq Let_def f
    by simp
qed

lemma usable_iff: "usable b \<longleftrightarrow> fst (saveMeeting p t e b) = Inr ()"
proof (cases "usable b")
  case True
  then show ?thesis by (simp add: saveMeeting_eq)
next
  case False
  then show ?thesis by (simp add: saveMeeting_throws)
qed

lemma usable_update [simp]:
  "usable (b \<lparr> meetgenai_meetings := Some (Encoded (JArray records)), actions := acts \<rparr>)
     = (JNull \<notin> set records)"
  by (simp add: usable_def)




lemma entry_not_null [simp]: "entry u call \<noteq> JNull"
  by (simp add: entry_def StoredMeeting_value_def split: prod.splits)

lemma null_not_entry [simp]: "JNull \<noteq> entry u call"
  by (simp add: entry_def StoredMeeting_value_def split: prod.splits)







text \<open>
  C8, as the code has it. For every state of the \<open>meetgenai_meetings\<close> key, \<open>getMeetings\<close>
  returns and does not throw, and it leaves the storage as it is. It gives the empty list when
  the key is missing or its text is empty or not JSON, and otherwise the value that the text
  parses to, whatever that is: the persisted list when the text is a list.
\<close>

theorem getMeetings_never_throws:
  "fst (getMeetings b) = Inr (case meetgenai_meetings b of
                                None \<Rightarrow> JArray []
                              | Some (Malformed s) \<Rightarrow> JArray []
                              | Some (Encoded v) \<Rightarrow> v)
   \<and> meetgenai_meetings (snd (getMeetings b)) = meetgenai_meetings b
   \<and> meetgenai_user (snd (getMeetings b)) = meetgenai_user b"
  by (cases "meetgenai_meetings b"; simp add: getMeetings_def split: jsontext.splits)

theorem getMeetings_never_throws_witness:
  "fst (getMeetings \<lparr> meetgenai_user = None, meetgenai_meetings = Some (Malformed ''{title:''),
                       actions = [] \<rparr>) = Inr (JArray [])
   \<and> fst (getMeetings emptyPage) = Inr (JArray [])
   \<and> fst (getMeetings \<lparr> meetgenai_user = None,
                         meetgenai_meetings = Some (Encoded (JArray [JString ''x''])),
                         actions = [] \<rparr>) = Inr (JArray [JString ''x''])"
  using getMeetings_never_throws [of "\<lparr> meetgenai_user = None,
            meetgenai_meetings = Some (Malformed ''{title:''), actions = [] \<rparr>"]
        getMeetings_never_throws [of emptyPage]
        getMeetings_never_throws [of "\<lparr> meetgenai_user = None,
            meetgenai_meetings = Some (Encoded (JArray [JString ''x''])), actions = [] \<rparr>"]
  by (simp add: emptyPage_def)

text \<open>
  C8, as it is written, promises the persisted list or an empty sequence. The text \<open>null\<close>
  parses, and \<open>getMeetings\<close> returns \<open>null\<close>, which is no list; \<open>saveMeeting\<close> then throws
  a \<open>TypeError\<close> at \<open>meetings.filter\<close> and writes nothing.
\<close>

theorem getMeetings_never_throws_counterexample:
  "fst (getMeetings nullHistoryPage) = Inr JNull
   \<and> \<not> isArray JNull
   \<and> saveMeeting (platformAt 1) ''Standup'' ''a@b.com'' nullHistoryPage = (Inl TypeError, nullHistoryPage)"
  by (simp add: nullHistoryPage_def getMeetings_def getUser_def saveMeeting_def)


lemma entry_props:
  "getProp (entry u (p, t, e)) ''title'' = Inr (Some (JString (trim t)))"
  "getProp (entry u (p, t, e)) ''email'' = Inr (Some (JString (trim e)))"
  "getProp (entry u (p, t, e)) ''savedAt'' = Inr (Some (JNumber (real (clock p))))"
  by (simp_all add: entry_def StoredMeeting_value_def)












section \<open>The join handler and the history\<close>

lemma handleJoinMeeting_begin_eq:
  assumes "usable (page a)"
  shows "handleJoinMeeting_begin p md a =
     (Inr (),
      a \<lparr> currentMeetingTitle := title md,
          showProcessModal := True,
          page := (page a) \<lparr> meetgenai_meetings :=
                    Some (Encoded (JArray (take 10 (entry (profileName (page a)) (p, title md, email md)
                       # filter (\<lambda>m. \<not> sameKey (title md) (email md) m) (history (page a)))))),
                  actions := actions (page a) @ meetingsLog (page a) @ userLog (page a)
                             @ [SetItem ''meetgenai_meetings'',
                                Post ''/api/join_meeting'' (MeetingData_value md)] \<rparr> \<rparr>)"
  by (simp add: handleJoinMeeting_begin_def saveMeeting_eq [OF assms])

lemma handleJoinMeeting_begin_throws:
  assumes "\<not> usable (page a)"
  shows "handleJoinMeeting_begin p md a =
     (Inl TypeError,
      a \<lparr> page := (page a) \<lparr> actions := actions (page a) @ meetingsLog (page a) @ userLog (page a) \<rparr> \<rparr>)"
  by (simp add: handleJoinMeeting_begin_def saveMeeting_throws [OF assms])

lemma handleJoinMeeting_settle_storage [simp]:
  "meetgenai_meetings (page (handleJoinMeeting_settle fetched a)) = meetgenai_meetings (page a)"
  "meetgenai_user (page (handleJoinMeeting_settle fetched a)) = meetgenai_user (page a)"
  by (simp_all add: handleJoinMeeting_settle_def split: sum.splits)

lemma handleJoinMeeting_storage:
  "fst (handleJoinMeeting p md fetched a) = fst (saveMeeting p (title md) (email md) (page a))
   \<and> meetgenai_meetings (page (snd (handleJoinMeeting p md fetched a)))
       = meetgenai_meetings (snd (saveMeeting p (title md) (email md) (page a)))
   \<and> meetgenai_user (page (snd (handleJoinMeeting p md fetched a)))
       = meetgenai_user (snd (saveMeeting p (title md) (email md) (page a)))"
proof (cases "usable (page a)")
  case True
  then show ?thesis
    by (simp add: handleJoinMeeting_def handleJoinMeeting_begin_eq saveMeeting_eq)
next
  case False
  then show ?thesis
    by (simp add: handleJoinMeeting_def handleJoinMeeting_begin_throws saveMeeting_throws)
qed

text \<open>
  C9. The join handler passes the title and the email of the meeting data to \<open>saveMeeting\<close>
  and nothing else, and a stored record has no password field. For any two meeting data that
  agree on title and email, whatever their passwords (and links), whatever becomes of the
  join requests and whatever the page holds, the two calls end alike and leave the same
  storage: it is what \<open>saveMeeting\<close> makes of the title and the email.
\<close>

theorem password_not_persisted:
  "title c1 = title c2 \<and> email c1 = email c2 \<longrightarrow>
     fst (handleJoinMeeting p c1 fetched1 a) = fst (handleJoinMeeting p c2 fetched2 a)
   \<and> meetgenai_meetings (page (snd (handleJoinMeeting p c1 fetched1 a)))
       = meetgenai_meetings (page (snd (handleJoinMeeting p c2 fetched2 a)))
   \<and> meetgenai_user (page (snd (handleJoinMeeting p c1 fetched1 a)))
       = meetgenai_user (page (snd (handleJoinMeeting p c2 fetched2 a)))
   \<and> meetgenai_meetings (page (snd (handleJoinMeeting p c1 fetched1 a)))
       = meetgenai_meetings (snd (saveMeeting p (title c1) (email c1) (page a)))
   \<and> (usable (page a) \<longrightarrow>
        fst (handleJoinMeeting p c1 fetched1 a) = Inr ()
        \<and> fst (handleJoinMeeting p c2 fetched2 a) = Inr ())"
proof
  assume e: "title c1 = title c2 \<and> email c1 = email c2"
  note s1 = handleJoinMeeting_storage [of p c1 fetched1 a]
  note s2 = handleJoinMeeting_storage [of p c2 fetched2 a]
  have ok: "fst (saveMeeting p (title c1) (email c1) (page a)) = Inr ()" if "usable (page a)"
    by (simp add: saveMeeting_eq [OF that])
  from e s1 s2 ok
  show "fst (handleJoinMeeting p c1 fetched1 a) = fst (handleJoinMeeting p c2 fetched2 a)
   \<and> meetgenai_meetings (page (snd (handleJoinMeeting p c1 fetched1 a)))
       = meetgenai_meetings (page (snd (handleJoinMeeting p c2 fetched2 a)))
   \<and> meetgenai_user (page (snd (handleJoinMeeting p c1 fetched1 a)))
       = meetgenai_user (page (snd (handleJoinMeeting p c2 fetched2 a)))
   \<and> meetgenai_meetings (page (snd (handleJoinMeeting p c1 fetched1 a)))
       = meetgenai_meetings (snd (saveMeeting p (title c1) (email c1) (page a)))
   \<and> (usable (page a) \<longrightarrow>
        fst (handleJoinMeeting p c1 fetched1 a) = Inr ()
        \<and> fst (handleJoinMeeting p c2 fetched2 a) = Inr ())"
    by simp
qed

theorem password_not_persisted_witness:
  "title (exampleMeeting ''hunter2'') = title (exampleMeeting ''correct horse'')
   \<and> email (exampleMeeting ''hunter2'') = email (exampleMeeting ''correct horse'')
   \<and> password (exampleMeeting ''hunter2'') \<noteq> password (exampleMeeting ''correct horse'')
   \<and> usable (page exampleApp)
   \<and> fst (handleJoinMeeting (platformAt 7) (exampleMeeting ''hunter2'') (Inl TypeError :: unit fetched) exampleApp)
       = Inr ()
   \<and> meetgenai_meetings (page (snd (handleJoinMeeting (platformAt 7) (exampleMeeting ''hunter2'')
          (Inl TypeError :: unit fetched) exampleApp)))
       = meetgenai_meetings (page (snd (handleJoinMeeting (platformAt 7) (exampleMeeting ''correct horse'')
          (Inl TypeError :: unit fetched) exampleApp)))"
proof -
  have h: "title (exampleMeeting ''hunter2'') = title (exampleMeeting ''correct horse'')
           \<and> email (exampleMeeting ''hunter2'') = email (exampleMeeting ''correct horse'')"
    by (simp add: exampleMeeting_def)
  have n: "password (exampleMeeting ''hunter2'') \<noteq> password (exampleMeeting ''correct horse'')"
    by (simp add: exampleMeeting_def)
  have u: "usable (page exampleApp)"
    by (simp add: exampleApp_def emptyPage_def usable_def)
  note t = password_not_persisted [of "exampleMeeting ''hunter2''" "exampleMeeting ''correct horse''"
          "platformAt 7" "Inl TypeError :: unit fetched" exampleApp "Inl TypeError :: unit fetched",
          rule_format, OF h]
  from t have 1: "meetgenai_meetings (page (snd (handleJoinMeeting (platformAt 7) (exampleMeeting ''hunter2'')
          (Inl TypeError :: unit fetched) exampleApp)))
       = meetgenai_meetings (page (snd (handleJoinMeeting (platformAt 7) (exampleMeeting ''correct horse'')
          (Inl TypeError :: unit fetched) exampleApp)))"
    by (elim conjE)
  from t u have 2: "fst (handleJoinMeeting (platformAt 7) (exampleMeeting ''hunter2'')
          (Inl TypeError :: unit fetched) exampleApp) = Inr ()"
    by (elim conjE) (drule (1) mp, erule conjunct1)
  from h n u 1 2 show ?thesis by (simp only: simp_thms)
qed

text \<open>
  C10, as the code has it. When the history text is one with which \<open>saveMeeting\<close> does not
  throw, \<open>handleJoinMeeting\<close> saves the meeting before it posts the join request: in what
  the page does, the storage write comes before the post (after the \<open>console.error\<close> calls
  of the two loads, if any), and when the request is under way the first record of the stored
  list carries the trimmed title and email of the meeting. What the request comes to (a
  success, a response that is not \<open>ok\<close>, no response) leaves the storage as it is, so the
  record is there afterwards in every case.
\<close>

theorem saved_before_join:
  "usable (page a) \<longrightarrow>
   (\<exists>a1 m ms.
      handleJoinMeeting_begin p md a = (Inr (), a1)
    \<and> actions (page a1) = actions (page a) @ meetingsLog (page a) @ userLog (page a)
          @ [SetItem ''meetgenai_meetings'', Post ''/api/join_meeting'' (MeetingData_value md)]
    \<and> meetgenai_meetings (page a1) = Some (JSON_stringify (JArray (m # ms)))
    \<and> getProp m ''title'' = Inr (Some (JString (trim (title md))))
    \<and> getProp m ''email'' = Inr (Some (JString (trim (email md))))
    \<and> getProp m ''savedAt'' = Inr (Some (JNumber (real (clock p))))
    \<and> handleJoinMeeting p md fetched a = (Inr (), handleJoinMeeting_settle fetched a1)
    \<and> meetgenai_meetings (page (handleJoinMeeting_settle fetched a1)) = meetgenai_meetings (page a1)
    \<and> fst (getMeetings (page (handleJoinMeeting_settle fetched a1))) = Inr (JArray (m # ms)))"
proof
  assume u: "usable (page a)"
  let ?m = "entry (profileName (page a)) (p, title md, email md)"
  let ?ms = "take 9 (filter (\<lambda>m. \<not> sameKey (title md) (email md) m) (history (page a)))"
  let ?a1 = "a \<lparr> currentMeetingTitle := title md,
          showProcessModal := True,
          page := (page a) \<lparr> meetgenai_meetings := Some (Encoded (JArray (?m # ?ms))),
                  actions := actions (page a) @ meetingsLog (page a) @ userLog (page a)
                             @ [SetItem ''meetgenai_meetings'',
                                Post ''/api/join_meeting'' (MeetingData_value md)] \<rparr> \<rparr>"
  have b: "handleJoinMeeting_begin p md a = (Inr (), ?a1)"
    by (simp add: handleJoinMeeting_begin_eq [OF u] take_Cons')
  have l: "actions (page ?a1) = actions (page a) @ meetingsLog (page a) @ userLog (page a)
          @ [SetItem ''meetgenai_meetings'', Post ''/api/join_meeting'' (MeetingData_value md)]"
    by simp
  have s: "meetgenai_meetings (page ?a1) = Some (JSON_stringify (JArray (?m # ?ms)))"
    by (simp add: JSON_stringify_def)
  note props = entry_props [of "profileName (page a)" p "title md" "email md"]
  have h: "handleJoinMeeting p md fetched a = (Inr (), handleJoinMeeting_settle fetched ?a1)"
    by (simp add: handleJoinMeeting_def b)
  have k: "meetgenai_meetings (page (handleJoinMeeting_settle fetched ?a1)) = meetgenai_meetings (page ?a1)"
    by (rule handleJoinMeeting_settle_storage)
  have g: "fst (getMeetings (page (handleJoinMeeting_settle fetched ?a1))) = Inr (JArray (?m # ?ms))"
    by (simp add: getMeetings_eq)
  from b l s props h k g
  show "\<exists>a1 m ms.
      handleJoinMeeting_begin p md a = (Inr (), a1)
    \<and> actions (page a1) = actions (page a) @ meetingsLog (page a) @ userLog (page a)
          @ [SetItem ''meetgenai_meetings'', Post ''/api/join_meeting'' (MeetingData_value md)]
    \<and> meetgenai_meetings (page a1) = Some (JSON_stringify (JArray (m # ms)))
    \<and> getProp m ''title'' = Inr (Some (JString (trim (title md))))
    \<and> getProp m ''email'' = Inr (Some (JString (trim (email md))))
    \<and> getProp m ''savedAt'' = Inr (Some (JNumber (real (clock p))))
    \<and> handleJoinMeeting p md fetched a = (Inr (), handleJoinMeeting_settle fetched a1)
    \<and> meetgenai_meetings (page (handleJoinMeeting_settle fetched a1)) = meetgenai_meetings (page a1)
    \<and> fst (getMeetings (page (handleJoinMeeting_settle fetched a1))) = Inr (JArray (m # ms))"
    by (intro exI conjI)
qed

theorem saved_before_join_witness:
  "usable (page exampleApp)
   \<and> (\<exists>a1 m ms.
      handleJoinMeeting (platformAt 7) (exampleMeeting ''hunter2'')
         (Inr (Response False (Inl SyntaxError)) :: unit fetched) exampleApp
        = (Inr (), handleJoinMeeting_settle (Inr (Response False (Inl SyntaxError)) :: unit fetched) a1)
    \<and> actions (page a1) = [SetItem ''meetgenai_meetings'',
                            Post ''/api/join_meeting'' (MeetingData_value (exampleMeeting ''hunter2''))]
    \<and> fst (getMeetings (page (handleJoinMeeting_settle
              (Inr (Response False (Inl SyntaxError)) :: unit fetched) a1))) = Inr (JArray (m # ms))
    \<and> getProp m ''title'' = Inr (Some (JString ''Standup''))
    \<and> getProp m ''email'' = Inr (Some (JString ''a@b.com'')))"
proof -
  have u: "usable (page exampleApp)"
    by (simp add: exampleApp_def emptyPage_def usable_def)
  have t: "trim ''Standup'' = ''Standup''" "trim ''a@b.com'' = ''a@b.com''"
    by (simp_all add: trim_def isWhiteSpace_def)
  let ?f = "Inr (Response False (Inl SyntaxError)) :: unit fetched"
  from saved_before_join [of exampleApp "platformAt 7" "exampleMeeting ''hunter2''" ?f,
         rule_format, OF u]
  obtain a1 m ms where
    r: "handleJoinMeeting (platformAt 7) (exampleMeeting ''hunter2'') ?f exampleApp
          = (Inr (), handleJoinMeeting_settle ?f a1)"
    and l: "actions (page a1) = actions (page exampleApp) @ meetingsLog (page exampleApp)
          @ userLog (page exampleApp)
          @ [SetItem ''meetgenai_meetings'',
             Post ''/api/join_meeting'' (MeetingData_value (exampleMeeting ''hunter2''))]"
    and g: "fst (getMeetings (page (handleJoinMeeting_settle ?f a1))) = Inr (JArray (m # ms))"
    and k: "getProp m ''title'' = Inr (Some (JString (trim (title (exampleMeeting ''hunter2'')))))"
           "getProp m ''email'' = Inr (Some (JString (trim (email (exampleMeeting ''hunter2'')))))"
    by (elim exE conjE)
  from k have k': "getProp m ''title'' = Inr (Some (JString ''Standup''))"
    "getProp m ''email'' = Inr (Some (JString ''a@b.com''))"
    by (simp_all add: exampleMeeting_def t)
  from l have l': "actions (page a1) = [SetItem ''meetgenai_meetings'',
                            Post ''/api/join_meeting'' (MeetingData_value (exampleMeeting ''hunter2''))]"
    by (simp add: exampleApp_def emptyPage_def meetingsLog_def userLog_def)
  from r l' g k' have "\<exists>a1 m ms.
      handleJoinMeeting (platformAt 7) (exampleMeeting ''hunter2'') ?f exampleApp
        = (Inr (), handleJoinMeeting_settle ?f a1)
    \<and> actions (page a1) = [SetItem ''meetgenai_meetings'',
                            Post ''/api/join_meeting'' (MeetingData_value (exampleMeeting ''hunter2''))]
    \<and> fst (getMeetings (page (handleJoinMeeting_settle ?f a1))) = Inr (JArray (m # ms))
    \<and> getProp m ''title'' = Inr (Some (JString ''Standup''))
    \<and> getProp m ''email'' = Inr (Some (JString ''a@b.com''))"
    by (intro exI conjI)
  with u show ?thesis by (rule conjI)
qed

text \<open>
  C10, as it is written, speaks of every call and of a record for the (title, email) of the
  call. With the title \<open>'' A''\<close> the record that is stored has the title \<open>''A''\<close>. With the
  history text \<open>null\<close>, \<open>saveMeeting\<close> throws, and the handler ends before it saves, posts
  or opens the modal.
\<close>

theorem saved_before_join_counterexample:
  "handleJoinMeeting (platformAt 7) paddedMeeting (Inl TypeError :: unit fetched) exampleApp =
     (Inr (),
      \<lparr> page = \<lparr> meetgenai_user = None,
                 meetgenai_meetings = Some (JSON_stringify (JArray
                   [JObject [(''id'', JString ''k3x9q2m7p7''), (''title'', JString ''A''),
                             (''email'', JString ''a@b.com''), (''savedAt'', JNumber 7)]])),
                 actions = [SetItem ''meetgenai_meetings'',
                            Post ''/api/join_meeting'' (MeetingData_value paddedMeeting),
                            ConsoleError ''Error joining meeting:''] \<rparr>,
        currentMeetingTitle = '' A'', showProcessModal = True \<rparr>)
   \<and> title paddedMeeting = '' A'' \<and> ''A'' \<noteq> '' A''
   \<and> handleJoinMeeting (platformAt 7) (exampleMeeting ''hunter2'') (Inl TypeError :: unit fetched)
        nullHistoryApp = (Inl TypeError, nullHistoryApp)
   \<and> page nullHistoryApp = \<lparr> meetgenai_user = None, meetgenai_meetings = Some (Encoded JNull),
                               actions = [] \<rparr>"
  by (simp add: handleJoinMeeting_def handleJoinMeeting_begin_def handleJoinMeeting_settle_def
      saveMeeting_def getMeetings_def getUser_def notDuplicate_def StoredMeeting_value_def
      paddedMeeting_def exampleMeeting_def exampleApp_def nullHistoryApp_def nullHistoryPage_def
      emptyPage_def platformAt_def trim_def isWhiteSpace_def generateId_def toString36.simps
      digit36_def JSON_stringify_def)

text \<open>
  C4. A reader that bypasses the store: \<open>ExistingMeetingForm\<close> parses the stored text itself,
  with no \<open>try\<close>, so a text that is not JSON makes its effect throw a \<open>SyntaxError\<close>,
  where \<open>getMeetings\<close> gives the empty list.
\<close>

theorem loadSavedMeetings_throws:
  "loadSavedMeetings \<lparr> meetgenai_user = None, meetgenai_meetings = Some (Malformed ''{not json''),
                        actions = [] \<rparr>
     = Inl SyntaxError
   \<and> fst (getMeetings \<lparr> meetgenai_user = None, meetgenai_meetings = Some (Malformed ''{not json''),
                         actions = [] \<rparr>)
     = Inr (JArray [])"
  by (simp add: loadSavedMeetings_def getMeetings_def)


section \<open>The process modal\<close>

lemmas modal_defs = effect_def initialModal_def pollSettles_def timerFires_def getStatus_def
  statusSwitch_def onComplete_def clearInterval_def cleanup_def statusReply_def

lemma run_Nil [simp]: "run [] m = m"
  by (simp add: run_def)

lemma run_Cons [simp]: "run (e # es) m = run es (step m e)"
  by (simp add: run_def)

lemma run_append: "run (es @ fs) m = run fs (run es m)"
  by (simp add: run_def)

lemma step_idle:
  assumes "interval m = None" "pending m = 0"
  shows "step m e = m"
proof (cases e)
  case TimerFires
  with assms show ?thesis by (simp add: timerFires_def)
next
  case (PollSettles fetched)
  with assms show ?thesis by (simp add: pollSettles_def)
next
  case ModalCloses
  have "m \<lparr> interval := interval m \<rparr> = m" by simp
  with assms ModalCloses show ?thesis by (simp add: cleanup_def clearInterval_def)
qed

lemma run_idle:
  assumes "interval m = None" "pending m = 0"
  shows "run es m = m"
  using assms by (induction es) (simp_all add: step_idle)

lemma happyPath_final:
  "run happyPath (effect True initialModal) =
     \<lparr> currentStep = completed, progress = 100, interval = None, pending = 0, requests = 4,
       stepCalls = [joined, ended, generating, completed],
       completeCalls = [''Summary completed!''], consoleErrors = 0 \<rparr>"
  by (simp add: happyPath_def pollSequence_def modal_defs)

lemma happyPath_stages:
  "stages happyPath (effect True initialModal)
     = [joining, joining, joined, joined, ended, ended, generating, generating, completed]"
  by (simp add: happyPath_def pollSequence_def modal_defs)

lemma remdups_adj_stages:
  "remdups_adj (x # stages es m)
     = (if x = currentStep m then remdups_adj (stages es m) else x # remdups_adj (stages es m))"
  by (cases es) simp_all

lemma stages_hd_ne: "stages es m \<noteq> []"
  by (cases es) simp_all

lemma settle_status:
  assumes "0 < pending m"
  shows "stepCalls (pollSettles (statusReply st) m) = stepCalls m @ [stepOf st]"
    and "currentStep (pollSettles (statusReply st) m) = stepOf st"
    and "completeCalls (pollSettles (statusReply st) m)
           = completeCalls m @ (if st = ''completed'' then [''Summary completed!''] else [])"
    and "interval (pollSettles (statusReply st) m) = (if st = ''completed'' then None else interval m)"
  using assms
  by (simp_all add: pollSettles_def statusReply_def getStatus_def statusSwitch_def stepOf_def
      onComplete_def clearInterval_def Let_def)

lemma tick_keeps:
  "stepCalls (timerFires m) = stepCalls m" "currentStep (timerFires m) = currentStep m"
  "completeCalls (timerFires m) = completeCalls m" "interval (timerFires m) = interval m"
  by (simp_all add: timerFires_def split: option.splits)

lemma run_replies:
  assumes "ModalCloses \<notin> set es" "underWay es m" "replies es = map statusReply sts"
  shows "stepCalls (run es m) = stepCalls m @ map stepOf sts
       \<and> completeCalls (run es m)
           = completeCalls m @ map (\<lambda>st. ''Summary completed!'') (filter (\<lambda>st. st = ''completed'') sts)
       \<and> interval (run es m) = (if ''completed'' \<in> set sts then None else interval m)
       \<and> remdups_adj (stages es m) = remdups_adj (currentStep m # map stepOf sts)"
  using assms
proof (induction es arbitrary: m sts)
  case Nil
  then show ?case by simp
next
  case (Cons e es)
  show ?case
  proof (cases e)
    case TimerFires
    with Cons.prems have p: "ModalCloses \<notin> set es" "underWay es (timerFires m)"
      "replies es = map statusReply sts" by simp_all
    from Cons.IH [OF p] have ih:
      "stepCalls (run es (timerFires m)) = stepCalls m @ map stepOf sts"
      "completeCalls (run es (timerFires m))
           = completeCalls m @ map (\<lambda>st. ''Summary completed!'') (filter (\<lambda>st. st = ''completed'') sts)"
      "interval (run es (timerFires m)) = (if ''completed'' \<in> set sts then None else interval m)"
      "remdups_adj (stages es (timerFires m)) = remdups_adj (currentStep m # map stepOf sts)"
      by (simp_all add: tick_keeps)
    have "remdups_adj (currentStep m # stages es (timerFires m)) = remdups_adj (stages es (timerFires m))"
      by (simp add: remdups_adj_stages tick_keeps)
    with ih show ?thesis by (simp add: TimerFires)
  next
    case (PollSettles fetched)
    with Cons.prems obtain st sts' where sts: "sts = st # sts'" and f: "fetched = statusReply st"
      and r: "replies es = map statusReply sts'" by (cases sts) auto
    from Cons.prems PollSettles have pend: "0 < pending m" and
      p: "ModalCloses \<notin> set es" "underWay es (pollSettles fetched m)" by simp_all
    note s = settle_status [OF pend, of st]
    from Cons.IH [OF p r] have ih:
      "stepCalls (run es (pollSettles fetched m)) = (stepCalls m @ [stepOf st]) @ map stepOf sts'"
      "completeCalls (run es (pollSettles fetched m))
           = (completeCalls m @ (if st = ''completed'' then [''Summary completed!''] else []))
             @ map (\<lambda>st. ''Summary completed!'') (filter (\<lambda>st. st = ''completed'') sts')"
      "interval (run es (pollSettles fetched m))
           = (if ''completed'' \<in> set sts' then None else (if st = ''completed'' then None else interval m))"
      "remdups_adj (stages es (pollSettles fetched m)) = remdups_adj (stepOf st # map stepOf sts')"
      by (simp_all add: f s)
    have "remdups_adj (currentStep m # stages es (pollSettles fetched m))
            = remdups_adj (currentStep m # stepOf st # map stepOf sts')"
      using ih(4) by (simp add: remdups_adj_stages f s(2))
    with ih show ?thesis by (auto simp: PollSettles sts)
  next
    case ModalCloses
    with Cons.prems show ?thesis by simp
  qed
qed


lemma stages_last: "last (stages es m) = currentStep (run es m)"
  by (induction es arbitrary: m) (simp_all add: stages_hd_ne)

lemma step_after_close:
  assumes "interval m = None"
  shows "interval (step m e) = None \<and> requests (step m e) = requests m
       \<and> length (stepCalls (step m e)) + pending (step m e) \<le> length (stepCalls m) + pending m
       \<and> length (completeCalls (step m e)) + pending (step m e) \<le> length (completeCalls m) + pending m"
proof (cases e)
  case TimerFires
  with assms show ?thesis by (simp add: timerFires_def)
next
  case (PollSettles fetched)
  with assms show ?thesis
    by (cases "getStatus fetched")
       (simp_all add: pollSettles_def statusSwitch_def onComplete_def clearInterval_def Let_def)
next
  case ModalCloses
  with assms show ?thesis by (simp add: cleanup_def clearInterval_def)
qed

lemma run_after_close:
  assumes "interval m = None"
  shows "interval (run es m) = None \<and> requests (run es m) = requests m
       \<and> length (stepCalls (run es m)) + pending (run es m) \<le> length (stepCalls m) + pending m
       \<and> length (completeCalls (run es m)) + pending (run es m) \<le> length (completeCalls m) + pending m"
  using assms
proof (induction es arbitrary: m)
  case Nil
  then show ?case by simp
next
  case (Cons e es)
  from step_after_close [OF Cons.prems, of e]
  have s: "interval (step m e) = None" "requests (step m e) = requests m"
    "length (stepCalls (step m e)) + pending (step m e) \<le> length (stepCalls m) + pending m"
    "length (completeCalls (step m e)) + pending (step m e) \<le> length (completeCalls m) + pending m"
    by simp_all
  from Cons.IH [OF s(1)] s show ?case by simp
qed

text \<open>
  The first meeting after the page is loaded: the modal opens at the stage \<open>joining\<close>. For
  every run of ticks and settled requests (no closing of the modal, every reply with its
  request under way) whose replies are, in this order, the statuses "not started",
  "Transcription", "summary generation" and "completed": the stage goes through joining,
  joined, ended, generating, completed in this order, \<open>onComplete\<close> is called once, and the
  timer is cleared, so that whatever comes later issues no further request.
\<close>

theorem first_session_in_order:
  "ModalCloses \<notin> set es \<and> underWay es (effect True initialModal)
   \<and> replies es = map statusReply [''not started'', ''Transcription'', ''summary generation'', ''completed'']
   \<longrightarrow>
     remdups_adj (stages es (effect True initialModal)) = [joining, joined, ended, generating, completed]
   \<and> stepCalls (run es (effect True initialModal)) = [joined, ended, generating, completed]
   \<and> currentStep (run es (effect True initialModal)) = completed
   \<and> completeCalls (run es (effect True initialModal)) = [''Summary completed!'']
   \<and> interval (run es (effect True initialModal)) = None
   \<and> requests (run (es @ later) (effect True initialModal)) = requests (run es (effect True initialModal))"
proof
  let ?m = "effect True initialModal"
  let ?sts = "[''not started'', ''Transcription'', ''summary generation'', ''completed'']"
  assume a: "ModalCloses \<notin> set es \<and> underWay es ?m \<and> replies es = map statusReply ?sts"
  then have a1: "ModalCloses \<notin> set es" and a2: "underWay es ?m" and a3: "replies es = map statusReply ?sts"
    by simp_all
  have m: "currentStep ?m = joining" "stepCalls ?m = []" "completeCalls ?m = []"
    by (simp_all add: effect_def initialModal_def)
  have st: "map stepOf ?sts = [joined, ended, generating, completed]"
    by (simp add: stepOf_def statusSwitch_def)
  from run_replies [OF a1 a2 a3]
  have r: "stepCalls (run es ?m) = stepCalls ?m @ map stepOf ?sts"
    "completeCalls (run es ?m)
       = completeCalls ?m @ map (\<lambda>st. ''Summary completed!'') (filter (\<lambda>st. st = ''completed'') ?sts)"
    "interval (run es ?m) = (if ''completed'' \<in> set ?sts then None else interval ?m)"
    "remdups_adj (stages es ?m) = remdups_adj (currentStep ?m # map stepOf ?sts)"
    by blast+
  from r(4) have t: "remdups_adj (stages es ?m) = [joining, joined, ended, generating, completed]"
    by (simp only: st m) simp
  from r(1) have c: "stepCalls (run es ?m) = [joined, ended, generating, completed]"
    by (simp only: st m) simp
  from r(2) have k: "completeCalls (run es ?m) = [''Summary completed!'']"
    by (simp only: m) simp
  from r(3) have i: "interval (run es ?m) = None"
    by simp
  have "last (remdups_adj (stages es ?m)) = last (stages es ?m)"
    by (rule last_remdups_adj)
  with t have cur: "currentStep (run es ?m) = completed"
    by (simp add: stages_last)
  have "requests (run later (run es ?m)) = requests (run es ?m)"
    using run_after_close [OF i, of later] by simp
  then have q: "requests (run (es @ later) ?m) = requests (run es ?m)"
    by (simp add: run_append)
  from t c cur k i q
  show "remdups_adj (stages es ?m) = [joining, joined, ended, generating, completed]
   \<and> stepCalls (run es ?m) = [joined, ended, generating, completed]
   \<and> currentStep (run es ?m) = completed
   \<and> completeCalls (run es ?m) = [''Summary completed!'']
   \<and> interval (run es ?m) = None
   \<and> requests (run (es @ later) ?m) = requests (run es ?m)"
    by (intro conjI)
qed

theorem first_session_example:
  "ModalCloses \<notin> set happyPath \<and> underWay happyPath (effect True initialModal)
   \<and> replies happyPath
       = map statusReply [''not started'', ''Transcription'', ''summary generation'', ''completed'']
   \<and> remdups_adj (stages happyPath (effect True initialModal))
       = [joining, joined, ended, generating, completed]
   \<and> completeCalls (run happyPath (effect True initialModal)) = [''Summary completed!'']
   \<and> requests (run (happyPath @ [TimerFires, TimerFires]) (effect True initialModal)) = 4"
proof -
  have h: "ModalCloses \<notin> set happyPath \<and> underWay happyPath (effect True initialModal)
   \<and> replies happyPath
       = map statusReply [''not started'', ''Transcription'', ''summary generation'', ''completed'']"
    by (simp add: happyPath_def pollSequence_def modal_defs)
  have q: "requests (run happyPath (effect True initialModal)) = 4"
    by (simp add: happyPath_final)
  note t = first_session_in_order [of happyPath "[TimerFires, TimerFires]", rule_format, OF h]
  from t have "remdups_adj (stages happyPath (effect True initialModal))
       = [joining, joined, ended, generating, completed]"
    "completeCalls (run happyPath (effect True initialModal)) = [''Summary completed!'']"
    "requests (run (happyPath @ [TimerFires, TimerFires]) (effect True initialModal))
       = requests (run happyPath (effect True initialModal))"
    by simp_all
  with h q show ?thesis by (simp only: simp_thms)
qed

text \<open>
  C1. Nothing sets the stage back when the modal is opened again (\<open>ConfirmationModal\<close> does
  so in its effect, with \<open>setStatus('joining')\<close>). For the second meeting the modal opens at
  the stage \<open>completed\<close> and at 100 percent, and with the same four replies the stage goes
  through completed, joined, ended, generating, completed: the stage \<open>joining\<close> is not among
  them.
\<close>

theorem stale_stage_on_reopen:
  "currentStep reopened = completed \<and> progress reopened = 100 \<and> interval reopened = Some 10000
   \<and> stages happyPath reopened
       = [completed, completed, joined, joined, ended, ended, generating, generating, completed]
   \<and> remdups_adj (stages happyPath reopened) = [completed, joined, ended, generating, completed]
   \<and> joining \<notin> set (stages happyPath reopened)"
  by (simp add: reopened_def happyPath_def pollSequence_def modal_defs)

text \<open>
  C2, as the code has it. Closing the modal clears the timer and does nothing else. From
  then on no request is issued; the requests under way at that moment still settle, and each
  of them can set the stage once and can call \<open>onComplete\<close>. When no request is under way
  at that moment, nothing changes any more: the stage stays, and neither \<open>setCurrentStep\<close> nor
  \<open>onComplete\<close> is called. (The component has no \<open>onError\<close> callback.)
\<close>

theorem cancel_stops_timer:
  "requests (run later (step m ModalCloses)) = requests m
   \<and> length (stepCalls (run later (step m ModalCloses))) \<le> length (stepCalls m) + pending m
   \<and> length (completeCalls (run later (step m ModalCloses))) \<le> length (completeCalls m) + pending m
   \<and> (pending m = 0 \<longrightarrow>
        run later (step m ModalCloses) = step m ModalCloses
        \<and> currentStep (run later (step m ModalCloses)) = currentStep m
        \<and> stepCalls (run later (step m ModalCloses)) = stepCalls m
        \<and> completeCalls (run later (step m ModalCloses)) = completeCalls m)"
proof -
  let ?c = "step m ModalCloses"
  have c: "interval ?c = None" "pending ?c = pending m" "requests ?c = requests m"
    "stepCalls ?c = stepCalls m" "completeCalls ?c = completeCalls m" "currentStep ?c = currentStep m"
    by (simp_all add: cleanup_def clearInterval_def)
  from run_after_close [OF c(1), of later] c
  have a: "requests (run later ?c) = requests m"
    "length (stepCalls (run later ?c)) \<le> length (stepCalls m) + pending m"
    "length (completeCalls (run later ?c)) \<le> length (completeCalls m) + pending m"
    by simp_all
  have b: "run later ?c = ?c" if "pending m = 0"
    using run_idle [OF c(1), of later] c(2) that by simp
  from a b c show ?thesis by simp
qed

theorem cancel_stops_timer_witness:
  "pending (run [TimerFires, PollSettles (statusReply ''not started'')] (effect True initialModal)) = 0
   \<and> currentStep (run ([TimerFires, PollSettles (statusReply ''not started''), ModalCloses]
                         @ [TimerFires, PollSettles (statusReply ''Transcription'')])
                    (effect True initialModal)) = joined
   \<and> requests (run ([TimerFires, PollSettles (statusReply ''not started''), ModalCloses]
                         @ [TimerFires, PollSettles (statusReply ''Transcription'')])
                    (effect True initialModal)) = 1"
proof -
  let ?m = "run [TimerFires, PollSettles (statusReply ''not started'')] (effect True initialModal)"
  have m: "pending ?m = 0" "currentStep ?m = joined" "requests ?m = 1"
    by (simp_all add: modal_defs)
  let ?later = "[TimerFires, PollSettles (statusReply ''Transcription'')]"
  note t = cancel_stops_timer [of ?later ?m]
  from t [THEN conjunct1] m(3)
  have r: "requests (run ?later (step ?m ModalCloses)) = 1"
    by (simp only:)
  from t [THEN conjunct2, THEN conjunct2, THEN conjunct2, rule_format, OF m(1), THEN conjunct2, THEN conjunct1] m(2)
  have "currentStep (run ?later (step ?m ModalCloses)) = joined"
    by (simp only:)
  with r have "currentStep (run ?later (step ?m ModalCloses)) = joined"
    "requests (run ?later (step ?m ModalCloses)) = 1"
    by simp_all
  moreover have "run ([TimerFires, PollSettles (statusReply ''not started''), ModalCloses]
                         @ [TimerFires, PollSettles (statusReply ''Transcription'')])
                    (effect True initialModal)
      = run [TimerFires, PollSettles (statusReply ''Transcription'')] (step ?m ModalCloses)"
    by (simp only: run_append run_Cons run_Nil append_Cons append_Nil)
  ultimately show ?thesis using m(1) by (simp only: simp_thms)
qed

text \<open>
  C2, as it is written, fails when a request is under way: the modal is closed at the stage
  \<open>joined\<close> with the second request outstanding; when that request settles with
  "Transcription" the stage is set to \<open>ended\<close>, and when it settles with "completed",
  \<open>onComplete\<close> is called.
\<close>

theorem cancel_race_counterexample:
  "interval (run cancelledMidway (effect True initialModal)) = None
   \<and> currentStep (run cancelledMidway (effect True initialModal)) = joined
   \<and> stepCalls (run cancelledMidway (effect True initialModal)) = [joined]
   \<and> currentStep (run (cancelledMidway @ [PollSettles (statusReply ''Transcription'')])
                    (effect True initialModal)) = ended
   \<and> stepCalls (run (cancelledMidway @ [PollSettles (statusReply ''Transcription'')])
                  (effect True initialModal)) = [joined, ended]
   \<and> completeCalls (run cancelledMidway (effect True initialModal)) = []
   \<and> completeCalls (run (cancelledMidway @ [PollSettles (statusReply ''completed'')])
                      (effect True initialModal)) = [''Summary completed!'']"
  by (simp add: cancelledMidway_def modal_defs)

text \<open>
  C7. A request that fails (no response, a response that is not \<open>ok\<close>, a body that is not
  JSON) is logged and changes neither the stage nor the progress, calls nothing, and leaves
  the timer as it is: a timer of period 10000 ms keeps this period, and its next tick issues
  the next request.
\<close>

theorem poll_failure_keeps_polling:
  "getStatus fetched = Inl err \<longrightarrow>
     currentStep (pollSettles fetched m) = currentStep m
   \<and> progress (pollSettles fetched m) = progress m
   \<and> stepCalls (pollSettles fetched m) = stepCalls m
   \<and> completeCalls (pollSettles fetched m) = completeCalls m
   \<and> interval (pollSettles fetched m) = interval m
   \<and> requests (pollSettles fetched m) = requests m
   \<and> (interval m = Some 10000 \<longrightarrow>
        requests (timerFires (pollSettles fetched m)) = requests m + 1)
   \<and> interval (pollSettles fetched (timerFires (effect True m))) = Some 10000"
  by (simp add: pollSettles_def timerFires_def effect_def Let_def)

theorem poll_failure_keeps_polling_witness:
  "getStatus (Inr (Response False (Inl SyntaxError))) = Inl (Error ''Failed to get status'')
   \<and> currentStep (pollSettles (Inr (Response False (Inl SyntaxError)))
        (run [TimerFires, PollSettles (statusReply ''not started''), TimerFires] (effect True initialModal)))
       = joined
   \<and> interval (pollSettles (Inr (Response False (Inl SyntaxError)))
        (run [TimerFires, PollSettles (statusReply ''not started''), TimerFires] (effect True initialModal)))
       = Some 10000
   \<and> requests (timerFires (pollSettles (Inr (Response False (Inl SyntaxError)))
        (run [TimerFires, PollSettles (statusReply ''not started''), TimerFires] (effect True initialModal))))
       = 3"
proof -
  let ?m = "run [TimerFires, PollSettles (statusReply ''not started''), TimerFires] (effect True initialModal)"
  have g: "getStatus (Inr (Response False (Inl SyntaxError))) = Inl (Error ''Failed to get status'')"
    by (simp add: getStatus_def)
  have m: "currentStep ?m = joined" "interval ?m = Some 10000" "requests ?m = 2"
    by (simp_all add: modal_defs)
  from poll_failure_keeps_polling [of "Inr (Response False (Inl SyntaxError))" "Error ''Failed to get status''" ?m] g m
  show ?thesis by simp
qed


section \<open>The form of a new meeting\<close>

lemma startsWith_iff: "startsWith s sub \<longleftrightarrow> (\<exists>q. s = sub @ q)"
  by (induction s sub rule: startsWith.induct) auto

lemma includes_str_iff: "includes_str s sub \<longleftrightarrow> (\<exists>p q. s = p @ sub @ q)"
proof (induction s)
  case Nil
  then show ?case by auto
next
  case (Cons c s)
  show ?case
  proof
    assume "includes_str (c # s) sub"
    then consider "startsWith (c # s) sub" | "includes_str s sub" by auto
    then show "\<exists>p q. c # s = p @ sub @ q"
    proof cases
      case 1
      then obtain q where "c # s = sub @ q" by (auto simp: startsWith_iff)
      then have "c # s = [] @ sub @ q" by simp
      then show ?thesis by blast
    next
      case 2
      with Cons.IH obtain p q where "s = p @ sub @ q" by blast
      then have "c # s = (c # p) @ sub @ q" by simp
      then show ?thesis by blast
    qed
  next
    assume "\<exists>p q. c # s = p @ sub @ q"
    then obtain p q where pq: "c # s = p @ sub @ q" by blast
    show "includes_str (c # s) sub"
    proof (cases p)
      case Nil
      with pq have "startsWith (c # s) sub" by (simp add: startsWith_iff)
      then show ?thesis by simp
    next
      case (Cons d p')
      with pq have "s = p' @ sub @ q" by simp
      with Cons.IH have "includes_str s sub" by blast
      then show ?thesis by simp
    qed
  qed
qed

lemma isValidUrl_iff:
  "isValidUrl newURL url \<longleftrightarrow>
     (\<exists>u. newURL url = Inr u) \<and>
     (includes_str url ''meet.google.com'' \<or> includes_str url ''zoom.us''
      \<or> includes_str url ''teams.microsoft.com'')"
  by (cases "newURL url") (simp_all add: isValidUrl_def)

lemma validateForm_link:
  "\<not> isValidUrl newURL (link formData) \<Longrightarrow>
     link_error (fst (validateForm newURL formData)) \<noteq> None \<and> \<not> snd (validateForm newURL formData)"
  by (simp add: validateForm_def Let_def)

text \<open>
  C3, as the code has it. \<open>isValidUrl\<close> accepts a link that the \<open>URL\<close> constructor parses
  and that contains one of the three platform names anywhere in its text. For every meeting
  data whose link does not parse or contains none of the three names, whatever the \<open>URL\<close>
  constructor, \<open>handleSubmit\<close> sets the link error and posts no request.
\<close>

theorem invalid_link_not_submitted:
  "(\<exists>e. newURL (link formData) = Inl e)
   \<or> \<not> (includes_str (link formData) ''meet.google.com'' \<or> includes_str (link formData) ''zoom.us''
          \<or> includes_str (link formData) ''teams.microsoft.com'')
   \<longrightarrow> link_error (errors (handleSubmit newURL formData fetched)) \<noteq> None
       \<and> posts (handleSubmit newURL formData fetched) = []
       \<and> joinCalls (handleSubmit newURL formData fetched) = []
       \<and> alerts (handleSubmit newURL formData fetched) = []"
proof
  assume a: "(\<exists>e. newURL (link formData) = Inl e)
   \<or> \<not> (includes_str (link formData) ''meet.google.com'' \<or> includes_str (link formData) ''zoom.us''
          \<or> includes_str (link formData) ''teams.microsoft.com'')"
  then have "\<not> isValidUrl newURL (link formData)"
    by (auto simp: isValidUrl_iff)
  from validateForm_link [OF this]
  obtain errs where v: "validateForm newURL formData = (errs, False)" and e: "link_error errs \<noteq> None"
    by (cases "validateForm newURL formData") auto
  have "handleSubmit newURL formData fetched = \<lparr> errors = errs, posts = [], alerts = [], joinCalls = [] \<rparr>"
    by (simp add: handleSubmit_def v)
  with e show "link_error (errors (handleSubmit newURL formData fetched)) \<noteq> None
       \<and> posts (handleSubmit newURL formData fetched) = []
       \<and> joinCalls (handleSubmit newURL formData fetched) = []
       \<and> alerts (handleSubmit newURL formData fetched) = []"
    by simp
qed

lemma simpleURL_otherSite: "simpleURL ''https://example.org/room/42'' = Inr (URL ''example.org'')"
  by (simp add: simpleURL_def hostChar_def)

lemma otherSite_no_platform:
  "\<not> (includes_str ''https://example.org/room/42'' ''meet.google.com''
       \<or> includes_str ''https://example.org/room/42'' ''zoom.us''
       \<or> includes_str ''https://example.org/room/42'' ''teams.microsoft.com'')"
  by simp

theorem invalid_link_not_submitted_witness:
  "simpleURL (link otherSiteMeeting) = Inr (URL ''example.org'')
   \<and> \<not> (includes_str (link otherSiteMeeting) ''meet.google.com''
          \<or> includes_str (link otherSiteMeeting) ''zoom.us''
          \<or> includes_str (link otherSiteMeeting) ''teams.microsoft.com'')
   \<and> link_error (errors (handleSubmit simpleURL otherSiteMeeting (Inr (Response True (Inr \<lparr> message = None \<rparr>)))))
       \<noteq> None
   \<and> posts (handleSubmit simpleURL otherSiteMeeting (Inr (Response True (Inr \<lparr> message = None \<rparr>)))) = []"
proof -
  have l: "link otherSiteMeeting = ''https://example.org/room/42''"
    by (simp add: otherSiteMeeting_def)
  have n: "\<not> (includes_str (link otherSiteMeeting) ''meet.google.com''
          \<or> includes_str (link otherSiteMeeting) ''zoom.us''
          \<or> includes_str (link otherSiteMeeting) ''teams.microsoft.com'')"
    unfolding l by (rule otherSite_no_platform)
  from invalid_link_not_submitted [of simpleURL otherSiteMeeting "Inr (Response True (Inr \<lparr> message = None \<rparr>))"] n
  have "link_error (errors (handleSubmit simpleURL otherSiteMeeting (Inr (Response True (Inr \<lparr> message = None \<rparr>))))) \<noteq> None"
    "posts (handleSubmit simpleURL otherSiteMeeting (Inr (Response True (Inr \<lparr> message = None \<rparr>)))) = []"
    by blast+
  with n show ?thesis by (simp only: l simpleURL_otherSite simp_thms)
qed

text \<open>
  C3, as it is written, speaks of the host name. The link
  \<open>https://evil.example/meet.google.com\<close> parses, its host \<open>evil.example\<close> is none of the
  three, and the form accepts it: no error is set and the join request is posted.
\<close>

theorem invalid_link_not_submitted_counterexample:
  "simpleURL (link lookalikeMeeting) = Inr (URL ''evil.example'')
   \<and> ''evil.example'' \<noteq> ''meet.google.com'' \<and> ''evil.example'' \<noteq> ''zoom.us''
   \<and> ''evil.example'' \<noteq> ''teams.microsoft.com''
   \<and> handleSubmit simpleURL lookalikeMeeting (Inr (Response True (Inr \<lparr> message = None \<rparr>)))
       = \<lparr> errors = \<lparr> title_error = None, link_error = None, email_error = None, password_error = None \<rparr>,
           posts = [(''http://localhost:5000/api/join_meeting'', lookalikeMeeting)],
           alerts = [], joinCalls = [lookalikeMeeting] \<rparr>"
  by (simp add: lookalikeMeeting_def simpleURL_def hostChar_def handleSubmit_def validateForm_def
      isValidUrl_def isValidEmail_def emailChar_def trim_def isWhiteSpace_def Let_def)


section \<open>The string functions against their meaning\<close>

text \<open>
  The email check is the regular expression: a text matches when it is a run of class
  characters, an \<open>@\<close>, a run of class characters, a dot and a run of class characters, all
  three runs non-empty (the dot is itself a class character). \<open>trim\<close> leaves a text alone that
  neither starts nor ends with white space. A status request fails when there is no response,
  when the response is not \<open>ok\<close>, or when its body is not JSON.
\<close>

lemma emailChar_dot: "emailChar CHR ''.''"
  by (simp add: emailChar_def isWhiteSpace_def)

lemma isValidEmail_iff:
  "isValidEmail s \<longleftrightarrow>
     (\<exists>a b c. s = a @ ''@'' @ b @ ''.'' @ c \<and> a \<noteq> [] \<and> b \<noteq> [] \<and> c \<noteq> []
        \<and> list_all emailChar a \<and> list_all emailChar b \<and> list_all emailChar c)"
proof
  assume v: "isValidEmail s"
  let ?a = "takeWhile (\<lambda>c. c \<noteq> CHR ''@'') s"
  let ?rest = "dropWhile (\<lambda>c. c \<noteq> CHR ''@'') s"
  from v have a: "?a \<noteq> []" "list_all emailChar ?a" and r: "?rest \<noteq> []"
    and d: "list_all emailChar (tl ?rest)" and dot: "CHR ''.'' \<in> set (butlast (tl (tl ?rest)))"
    by (simp_all add: isValidEmail_def Let_def)
  from r have "hd ?rest = CHR ''@''"
    using hd_dropWhile [of "\<lambda>c. c \<noteq> CHR ''@''" s] by simp
  with r have rest: "?rest = CHR ''@'' # tl ?rest" by (cases ?rest) simp_all
  from dot obtain x d' where td: "tl ?rest = x # d'" by (cases "tl ?rest") auto
  with dot have "CHR ''.'' \<in> set (butlast d')" by simp
  then obtain u w where bl: "butlast d' = u @ CHR ''.'' # w" by (auto dest: split_list)
  then have "d' \<noteq> []" by auto
  then have "d' = butlast d' @ [last d']" by simp
  with bl have d': "d' = u @ CHR ''.'' # (w @ [last d'])" by simp
  have "s = ?a @ ?rest" by simp
  with rest td d' have s: "s = ?a @ ''@'' @ (x # u) @ ''.'' @ (w @ [last d'])"
    by (metis append_Cons append_Nil)
  from d td d' have "list_all emailChar (x # u @ CHR ''.'' # (w @ [last d']))"
    by simp
  then have "list_all emailChar (x # u)" "list_all emailChar (w @ [last d'])"
    by simp_all
  with s a show "\<exists>a b c. s = a @ ''@'' @ b @ ''.'' @ c \<and> a \<noteq> [] \<and> b \<noteq> [] \<and> c \<noteq> []
        \<and> list_all emailChar a \<and> list_all emailChar b \<and> list_all emailChar c"
    by blast
next
  assume "\<exists>a b c. s = a @ ''@'' @ b @ ''.'' @ c \<and> a \<noteq> [] \<and> b \<noteq> [] \<and> c \<noteq> []
        \<and> list_all emailChar a \<and> list_all emailChar b \<and> list_all emailChar c"
  then obtain a b c where s: "s = a @ ''@'' @ b @ ''.'' @ c" and ne: "a \<noteq> []" "b \<noteq> []" "c \<noteq> []"
    and ok: "list_all emailChar a" "list_all emailChar b" "list_all emailChar c" by blast
  from ok(1) have noat: "\<forall>x\<in>set a. x \<noteq> CHR ''@''"
    by (auto simp: list_all_iff emailChar_def)
  have tw: "takeWhile (\<lambda>c. c \<noteq> CHR ''@'') s = a"
    unfolding s using noat by (simp add: takeWhile_append2)
  have dw: "dropWhile (\<lambda>c. c \<noteq> CHR ''@'') s = CHR ''@'' # b @ CHR ''.'' # c"
    unfolding s using noat by (simp add: dropWhile_append2)
  obtain y b' where b: "b = y # b'" using ne(2) by (cases b) auto
  have "butlast (tl (b @ CHR ''.'' # c)) = b' @ CHR ''.'' # butlast c"
    using ne(3) by (simp add: b butlast_append)
  then have "CHR ''.'' \<in> set (butlast (tl (b @ CHR ''.'' # c)))" by simp
  moreover have "list_all emailChar (b @ CHR ''.'' # c)"
    using ok emailChar_dot by simp
  ultimately show "isValidEmail s"
    using ne(1) ok(1) by (simp add: isValidEmail_def Let_def tw dw)
qed

lemma trim_no_space:
  assumes "s \<noteq> []" "\<not> isWhiteSpace (hd s)" "\<not> isWhiteSpace (last s)"
  shows "trim s = s"
proof -
  from assms(1,2) have "dropWhile isWhiteSpace s = s" by (cases s) simp_all
  moreover from assms(1,3) have "dropWhile isWhiteSpace (rev s) = rev s"
    by (cases "rev s") (simp_all add: last_rev [symmetric] hd_rev)
  ultimately show ?thesis by (simp add: trim_def)
qed

lemma getStatus_fails_iff:
  "(\<exists>e. getStatus fetched = Inl e) \<longleftrightarrow>
     (case fetched of Inl e \<Rightarrow> True | Inr response \<Rightarrow> \<not> ok response \<or> isl (json response))"
  by (auto simp: getStatus_def split: sum.splits)

end
